theory Spec2Isabelle
  imports Complex_Main
begin

section \<open>Resilient propagation: the weight update strategies\<close>

text \<open>
  The development embeds the class \<open>ResilientPropagation\<close> (the second module held by
  \<^verbatim>\<open>src/utils/dataToolbox.js\<close>): its constructor, the dispatcher \<open>updateWeight\<close>, the five
  update rules and \<open>postIteration\<close>.

  JavaScript numbers are modelled as real numbers: arithmetic is exact, and the only
  non-finite value that is represented is the \<open>Number.POSITIVE_INFINITY\<close> the constructor
  stores in \<open>lastError\<close>. An array index is a weight index, that is, it lies inside every
  per-weight array; the theorems state this where they need it.
\<close>

subsection \<open>Numbers, errors, constants\<close>

datatype js_error = NeuralNetworkError string | ReferenceError string

datatype number_or_infinity = Finite real | POSITIVE_INFINITY

text \<open>The comparison \<open>x > y\<close> of a finite number with a number that may be \<open>+Infinity\<close>.\<close>

fun greater_than :: "real \<Rightarrow> number_or_infinity \<Rightarrow> bool" where
  "greater_than x (Finite y) = (x > y)"
| "greater_than x POSITIVE_INFINITY = False"

definition DEFAULT_ZERO_TOLERANCE :: real where
  "DEFAULT_ZERO_TOLERANCE = 1 / 10 ^ 17"

definition POSITIVE_ETA :: real where
  "POSITIVE_ETA = 12 / 10"

definition NEGATIVE_ETA :: real where
  "NEGATIVE_ETA = 5 / 10"

definition DELTA_MIN :: real where
  "DELTA_MIN = 1 / 10 ^ 6"

definition DEFAULT_INITIAL_UPDATE :: real where
  "DEFAULT_INITIAL_UPDATE = 1 / 10"

definition DEFAULT_MAX_STEP :: real where
  "DEFAULT_MAX_STEP = 50"

definition RPROPp :: string where
  "RPROPp = ''RPROPp''"

definition RPROPm :: string where
  "RPROPm = ''RPROPm''"

definition iRPROPp :: string where
  "iRPROPp = ''iRPROPp''"

definition iRPROPm :: string where
  "iRPROPm = ''iRPROPm''"

definition ARPROP :: string where
  "ARPROP = ''ARPROP''"

text \<open>
  Modelled from the spec: \<open>EncogMath.sign\<close> lives in a module that is not part of the
  source tree. The specification calls it the sign of a number, with the three results
  \<open>> 0\<close>, \<open>< 0\<close> and \<open>== 0\<close>.
\<close>

definition sign :: "real \<Rightarrow> real" where
  "sign x = (if x > 0 then 1 else if x < 0 then - 1 else 0)"

text \<open>
  Modelled from the spec: \<open>ArrayUtils.newFloatArray\<close> is not part of the source tree. The
  specification describes the per-weight arrays as numeric buffers of the length of the
  weight vector; a fresh one holds zeros.
\<close>

definition newFloatArray :: "nat \<Rightarrow> real list" where
  "newFloatArray n = replicate n 0"

subsection \<open>The state\<close>

text \<open>
  The fields of a \<open>ResilientPropagation\<close> object that the update rules read or write.
  \<open>error\<close> is inherited from the base class \<open>Propagation\<close>, which stores the error of the
  current iteration there.
\<close>

record resilient =
  updateValues :: "real list"
  lastDelta :: "real list"
  lastWeightChange :: "real list"
  zeroTolerance :: real
  maxStep :: real
  rpropType :: string
  error :: real
  lastError :: number_or_infinity
  q :: real

text \<open>
  What one call of \<open>updateWeight\<close> can reach: the object itself, the array
  \<open>lastGradient\<close> that the caller passes by reference and the rules write to, and the
  binding of the free identifier \<open>q\<close> that \<open>updateJacobiWeight\<close> uses. No declaration of
  \<open>q\<close> is in scope of the class, so the identifier resolves in the global object:
  \<open>None\<close> stands for "not declared". The array \<open>gradients\<close> is only read; it is an
  argument of the functions below, and a different array from \<open>lastGradient\<close>.
\<close>

record world =
  strategy :: resilient
  lastGradient :: "real list"
  global_q :: "real option"

definition set_updateValues :: "nat \<Rightarrow> real \<Rightarrow> world \<Rightarrow> world" where
  "set_updateValues index v w =
     w\<lparr>strategy := (strategy w)\<lparr>updateValues := (updateValues (strategy w))[index := v]\<rparr>\<rparr>"

definition set_lastDelta :: "nat \<Rightarrow> real \<Rightarrow> world \<Rightarrow> world" where
  "set_lastDelta index v w =
     w\<lparr>strategy := (strategy w)\<lparr>lastDelta := (lastDelta (strategy w))[index := v]\<rparr>\<rparr>"

definition set_lastWeightChange :: "nat \<Rightarrow> real \<Rightarrow> world \<Rightarrow> world" where
  "set_lastWeightChange index v w =
     w\<lparr>strategy := (strategy w)\<lparr>lastWeightChange := (lastWeightChange (strategy w))[index := v]\<rparr>\<rparr>"

definition set_lastGradient :: "nat \<Rightarrow> real \<Rightarrow> world \<Rightarrow> world" where
  "set_lastGradient index v w = w\<lparr>lastGradient := (lastGradient w)[index := v]\<rparr>"

subsection \<open>The constructor\<close>

text \<open>
  \<open>super(network, input, output)\<close> provides the flat network, whose weight vector has
  \<open>n\<close> entries, and the inherited field \<open>error\<close>; both are parameters here. The
  constructor takes no variant tag: it always stores \<open>RPROPp\<close>.
\<close>

definition new_ResilientPropagation :: "nat \<Rightarrow> real \<Rightarrow> real \<Rightarrow> real \<Rightarrow> resilient" where
  "new_ResilientPropagation n err initialUpdate maxStep0 =
     \<lparr> updateValues = map (\<lambda>_. initialUpdate) (newFloatArray n),
       lastDelta = map (\<lambda>_. 0) (newFloatArray n),
       lastWeightChange = newFloatArray n,
       zeroTolerance = DEFAULT_ZERO_TOLERANCE,
       maxStep = maxStep0,
       rpropType = RPROPp,
       error = err,
       lastError = POSITIVE_INFINITY,
       q = 1 \<rparr>"

subsection \<open>The five update rules\<close>

definition updateWeightPlus :: "real list \<Rightarrow> nat \<Rightarrow> world \<Rightarrow> world \<times> real" where
  "updateWeightPlus gradients index w =
     (let change = sign (gradients ! index * lastGradient w ! index) in
      if change > 0 then
        (let delta = updateValues (strategy w) ! index * POSITIVE_ETA;
             delta = min delta (maxStep (strategy w));
             weightChange = sign (gradients ! index) * delta
         in (set_lastGradient index (gradients ! index) (set_updateValues index delta w),
             weightChange))
      else if change < 0 then
        (let delta = updateValues (strategy w) ! index * NEGATIVE_ETA;
             delta = max delta DELTA_MIN;
             weightChange = - (lastWeightChange (strategy w) ! index)
         in (set_lastGradient index 0 (set_updateValues index delta w), weightChange))
      else if change = 0 then
        (let delta = updateValues (strategy w) ! index;
             weightChange = sign (gradients ! index) * delta
         in (set_lastGradient index (gradients ! index) w, weightChange))
      else (w, 0))"

definition updateWeightMinus :: "real list \<Rightarrow> nat \<Rightarrow> world \<Rightarrow> world \<times> real" where
  "updateWeightMinus gradients index w =
     (let change = sign (gradients ! index * lastGradient w ! index);
          delta = (if change > 0
                   then min (lastDelta (strategy w) ! index * POSITIVE_ETA) (maxStep (strategy w))
                   else max (lastDelta (strategy w) ! index * NEGATIVE_ETA) DELTA_MIN);
          w1 = set_lastGradient index (gradients ! index) w;
          weightChange = sign (gradients ! index) * delta
      in (set_lastDelta index delta w1, weightChange))"

definition updateiWeightPlus :: "real list \<Rightarrow> nat \<Rightarrow> world \<Rightarrow> world \<times> real" where
  "updateiWeightPlus gradients index w =
     (let change = sign (gradients ! index * lastGradient w ! index) in
      if change > 0 then
        (let delta = updateValues (strategy w) ! index * POSITIVE_ETA;
             delta = min delta (maxStep (strategy w));
             weightChange = sign (gradients ! index) * delta
         in (set_lastGradient index (gradients ! index) (set_updateValues index delta w),
             weightChange))
      else if change < 0 then
        (let delta = updateValues (strategy w) ! index * NEGATIVE_ETA;
             delta = max delta DELTA_MIN;
             w1 = set_updateValues index delta w;
             weightChange = (if greater_than (error (strategy w1)) (lastError (strategy w1))
                             then - (lastWeightChange (strategy w1) ! index) else 0)
         in (set_lastGradient index 0 w1, weightChange))
      else if change = 0 then
        (let delta = updateValues (strategy w) ! index;
             weightChange = sign (gradients ! index) * delta
         in (set_lastGradient index (gradients ! index) w, weightChange))
      else (w, 0))"

definition updateiWeightMinus :: "real list \<Rightarrow> nat \<Rightarrow> world \<Rightarrow> world \<times> real" where
  "updateiWeightMinus gradients index w =
     (let change = sign (gradients ! index * lastGradient w ! index);
          delta = (if change > 0
                   then min (lastDelta (strategy w) ! index * POSITIVE_ETA) (maxStep (strategy w))
                   else max (lastDelta (strategy w) ! index * NEGATIVE_ETA) DELTA_MIN);
          w1 = (if change > 0 then w else set_lastGradient index 0 w);
          w2 = set_lastGradient index (gradients ! index) w1;
          weightChange = sign (gradients ! index) * delta
      in (set_lastDelta index delta w2, weightChange))"

text \<open>
  \<open>updateJacobiWeight\<close> is given in two parts. \<open>jacobi_rule\<close> is its three-way branch on
  \<open>change\<close>, with the local variables \<open>weightChange\<close> and \<open>delta\<close> as results beside the
  state. The method then ends with a block on the identifier \<open>q\<close>, written without
  \<open>this\<close>. A class body is strict code: reading an undeclared identifier and assigning to
  one both throw a \<open>ReferenceError\<close>. The arrays have been written by then, and stay so.
  A global \<open>q\<close> that holds \<open>0\<close> or no number is outside the model (the quotient would be
  \<open>Infinity\<close> or \<open>NaN\<close>).
\<close>

definition jacobi_rule :: "real list \<Rightarrow> nat \<Rightarrow> world \<Rightarrow> world \<times> real \<times> real" where
  "jacobi_rule gradients index w =
     (let change = sign (gradients ! index * lastGradient w ! index);
          delta0 = updateValues (strategy w) ! index in
      if change > 0 then
        (let delta = updateValues (strategy w) ! index * POSITIVE_ETA;
             delta = min delta (maxStep (strategy w));
             weightChange = sign (gradients ! index) * delta
         in (set_lastGradient index (gradients ! index) (set_updateValues index delta w),
             weightChange, delta))
      else if change < 0 then
        (let delta = updateValues (strategy w) ! index * NEGATIVE_ETA;
             delta = max delta DELTA_MIN;
             weightChange = - (lastWeightChange (strategy w) ! index)
         in (set_lastGradient index 0 (set_updateValues index delta w), weightChange, delta))
      else if change = 0 then
        (let delta = updateValues (strategy w) ! index;
             weightChange = sign (gradients ! index) * delta
         in (set_lastGradient index (gradients ! index) w, weightChange, delta))
      else (w, 0, delta0))"

definition updateJacobiWeight :: "real list \<Rightarrow> nat \<Rightarrow> world \<Rightarrow> world \<times> (js_error + real)" where
  "updateJacobiWeight gradients index w =
     (case jacobi_rule gradients index w of (w1, weightChange, delta) \<Rightarrow>
        if greater_than (error (strategy w1)) (lastError (strategy w1)) then
          (case global_q w1 of
             None \<Rightarrow> (w1, Inl (ReferenceError ''q is not defined''))
           | Some qv \<Rightarrow> (w1\<lparr>global_q := Some (qv + 1)\<rparr>, Inr ((1 / (2 * qv)) * delta)))
        else
          (case global_q w1 of
             None \<Rightarrow> (w1, Inl (ReferenceError ''q is not defined''))
           | Some qv \<Rightarrow> (w1\<lparr>global_q := Some 1\<rparr>, Inr weightChange)))"

subsection \<open>The dispatcher\<close>

text \<open>
  \<open>returned\<close> wraps the result of a rule that cannot throw. The \<open>switch\<close> on the tag
  compares strings; its \<open>default\<close> branch throws. The last assignment,
  \<open>this.lastWeightChange[index] = weightChange\<close>, is reached only when no rule threw.
\<close>

definition returned :: "world \<times> real \<Rightarrow> world \<times> (js_error + real)" where
  "returned r = (fst r, Inr (snd r))"

definition updateWeight ::
  "real list \<Rightarrow> nat \<Rightarrow> real \<Rightarrow> world \<Rightarrow> world \<times> (js_error + real)" where
  "updateWeight gradients index dropoutRate w =
     (if dropoutRate > 0 then (w, Inr 0)
      else
        (let t = rpropType (strategy w);
             r = (if t = RPROPp then returned (updateWeightPlus gradients index w)
                  else if t = RPROPm then returned (updateWeightMinus gradients index w)
                  else if t = iRPROPp then returned (updateiWeightPlus gradients index w)
                  else if t = iRPROPm then returned (updateiWeightMinus gradients index w)
                  else if t = ARPROP then updateJacobiWeight gradients index w
                  else (w, Inl (NeuralNetworkError (''Unknown RPROP type: '' @ t))))
         in case snd r of
              Inl e \<Rightarrow> (fst r, Inl e)
            | Inr weightChange \<Rightarrow>
                (set_lastWeightChange index weightChange (fst r), Inr weightChange)))"

text \<open>
  \<open>postIteration\<close>: after the inherited hook, the error of the iteration becomes the
  previous error.
\<close>

definition postIteration :: "world \<Rightarrow> world" where
  "postIteration w = w\<lparr>strategy := (strategy w)\<lparr>lastError := Finite (error (strategy w))\<rparr>\<rparr>"

subsection \<open>Sequences of calls\<close>

text \<open>
  A training run, seen from the strategy: calls of \<open>updateWeight\<close> with the gradient
  array of the moment, the base class storing the error of an iteration, and
  \<open>postIteration\<close>. \<open>lastGradient\<close> is the one array the caller keeps passing.
\<close>

datatype event = UpdateWeight "real list" nat real | SetError real | PostIteration

fun fire :: "event \<Rightarrow> world \<Rightarrow> world \<times> (js_error + real) list" where
  "fire (UpdateWeight gradients index dropoutRate) w =
     (case updateWeight gradients index dropoutRate w of (w', r) \<Rightarrow> (w', [r]))"
| "fire (SetError e) w = (w\<lparr>strategy := (strategy w)\<lparr>error := e\<rparr>\<rparr>, [])"
| "fire PostIteration w = (postIteration w, [])"

fun run :: "event list \<Rightarrow> world \<Rightarrow> world \<times> (js_error + real) list" where
  "run [] w = (w, [])"
| "run (e # es) w =
     (case fire e w of (w1, rs1) \<Rightarrow> case run es w1 of (w2, rs2) \<Rightarrow> (w2, rs1 @ rs2))"

text \<open>
  The state a training run starts from: the constructed object, with the variant tag
  assigned afterwards (the constructor has no parameter for it), a previous-gradient
  array and the global binding of \<open>q\<close>.
\<close>

definition start :: "nat \<Rightarrow> real \<Rightarrow> real \<Rightarrow> string \<Rightarrow> real list \<Rightarrow> real option \<Rightarrow> world" where
  "start n initialUpdate maxStep0 t lg gq =
     \<lparr> strategy = (new_ResilientPropagation n 0 initialUpdate maxStep0)\<lparr>rpropType := t\<rparr>,
       lastGradient = lg,
       global_q = gq \<rparr>"

text \<open>
  An index is a weight index when it lies inside the gradient array and every per-weight
  array of the state.
\<close>

definition weight_index :: "nat \<Rightarrow> real list \<Rightarrow> world \<Rightarrow> bool" where
  "weight_index index gradients w \<longleftrightarrow>
     index < length gradients \<and> index < length (lastGradient w) \<and>
     index < length (updateValues (strategy w)) \<and> index < length (lastDelta (strategy w)) \<and>
     index < length (lastWeightChange (strategy w))"

text \<open>An event of a run over \<open>n\<close> weights passes arrays of length \<open>n\<close> and an index below \<open>n\<close>.\<close>

fun in_range :: "nat \<Rightarrow> event \<Rightarrow> bool" where
  "in_range n (UpdateWeight gradients index dropoutRate) = (index < n \<and> length gradients = n)"
| "in_range n (SetError e) = True"
| "in_range n PostIteration = True"

text \<open>The events that run an update rule on index \<open>i\<close>: the calls without dropout.\<close>

fun updates_index :: "nat \<Rightarrow> event \<Rightarrow> bool" where
  "updates_index i (UpdateWeight gradients index dropoutRate) = (index = i \<and> \<not> dropoutRate > 0)"
| "updates_index i (SetError e) = False"
| "updates_index i PostIteration = False"

text \<open>
  A single ARPROP weight, built with \<open>initialUpdate = 0.1\<close> and \<open>maxStep = 50\<close>, at a moment
  when the error of the iteration (\<open>1\<close>) exceeds the previous error (\<open>0\<close>); \<open>gq\<close> is the
  global binding of \<open>q\<close>.
\<close>

definition arprop_error_grew :: "real option \<Rightarrow> world" where
  "arprop_error_grew gq =
     fst (run [PostIteration, SetError 1] (start 1 (1 / 10) 50 ARPROP [0] gq))"


definition lastDelta_settled :: "nat \<Rightarrow> world \<Rightarrow> bool" where
  "lastDelta_settled n w \<longleftrightarrow>
     (\<forall>j < n. (lastDelta (strategy w) ! j = 0 \<and> lastGradient w ! j = 0) \<or>
              (DELTA_MIN \<le> lastDelta (strategy w) ! j \<and>
               lastDelta (strategy w) ! j \<le> maxStep (strategy w)))"

section \<open>Properties\<close>

lemmas consts_defs = POSITIVE_ETA_def NEGATIVE_ETA_def DELTA_MIN_def
  DEFAULT_INITIAL_UPDATE_def DEFAULT_MAX_STEP_def DEFAULT_ZERO_TOLERANCE_def

lemmas tag_defs = RPROPp_def RPROPm_def iRPROPp_def iRPROPm_def ARPROP_def

lemmas setter_defs = set_updateValues_def set_lastDelta_def set_lastWeightChange_def
  set_lastGradient_def

lemmas rule_defs = updateWeightPlus_def updateWeightMinus_def updateiWeightPlus_def
  updateiWeightMinus_def jacobi_rule_def updateJacobiWeight_def returned_def

lemmas eval_defs = updateWeight_def rule_defs setter_defs start_def new_ResilientPropagation_def
  newFloatArray_def sign_def consts_defs tag_defs postIteration_def Let_def

subsection \<open>Dropout\<close>

text \<open>
  C7. Dropout exclusion: a call of \<open>updateWeight\<close> with \<open>dropoutRate > 0\<close> returns exactly
  \<open>0\<close>, whatever the variant tag, and writes nothing: neither the strategy's arrays nor
  \<open>lastGradient\<close> nor \<open>q\<close> change, so nothing is added to the weight at that index.
\<close>

theorem dropout_returns_zero:
  "dropoutRate > 0 \<Longrightarrow> updateWeight gradients index dropoutRate w = (w, Inr 0)"
  by (simp add: updateWeight_def)

theorem dropout_returns_zero_witness:
  "(1 / 2 :: real) > 0 \<and>
   updateWeight [1] 0 (1 / 2) (start 1 (1 / 10) 50 RPROPm [0] None)
     = (start 1 (1 / 10) 50 RPROPm [0] None, Inr 0)"
  using dropout_returns_zero [of "1 / 2" "[1]" 0 "start 1 (1 / 10) 50 RPROPm [0] None"]
  by simp

subsection \<open>The scenario of a single weight under RPROPp\<close>

text \<open>
  C3, as stated, fails: one weight, \<open>initialUpdate = 0.1\<close>, \<open>lastGradient = [0]\<close>, two calls
  with gradient \<open>1.0\<close>. The claim has the first call return \<open>-0.1\<close> and the step be \<open>0.12\<close>
  after the second; the first call does not return \<open>-0.1\<close>.
\<close>

theorem rpropp_first_change_is_not_negative:
  "\<not> (snd (updateWeight [1] 0 0 (start 1 (1 / 10) 50 RPROPp [0] None)) = Inr (- (1 / 10)) \<and>
      updateValues (strategy (fst (run [UpdateWeight [1] 0 0, UpdateWeight [1] 0 0]
        (start 1 (1 / 10) 50 RPROPp [0] None)))) = [12 / 100])"
  by (simp add: eval_defs)

text \<open>
  C3, amended: the constructor leaves the variant at RPROPp; with the defaults, one weight
  and \<open>lastGradient = [0]\<close>, two calls with gradient \<open>1.0\<close> return \<open>+0.1\<close>
  (\<open>sign(gradient) * step\<close>: the change has the sign of the gradient) and then \<open>+0.12\<close>, and
  after the second call \<open>updateValues[0]\<close> is \<open>0.1 * 1.2 = 0.12\<close>.
\<close>

theorem rpropp_two_steps:
  "rpropType (new_ResilientPropagation 1 err DEFAULT_INITIAL_UPDATE DEFAULT_MAX_STEP) = RPROPp \<and>
   snd (run [UpdateWeight [1] 0 0, UpdateWeight [1] 0 0]
          (start 1 DEFAULT_INITIAL_UPDATE DEFAULT_MAX_STEP RPROPp [0] gq))
     = [Inr (1 / 10), Inr (12 / 100)] \<and>
   updateValues (strategy (fst (run [UpdateWeight [1] 0 0, UpdateWeight [1] 0 0]
          (start 1 DEFAULT_INITIAL_UPDATE DEFAULT_MAX_STEP RPROPp [0] gq)))) = [12 / 100]"
  by (simp add: eval_defs)

subsection \<open>Sign reversal under iRPROPm and iRPROPp\<close>

text \<open>
  C4 at a concrete run of iRPROPm: after a first call with gradient \<open>1\<close>, a call with
  gradient \<open>-1\<close> is a sign reversal; when it returns, \<open>lastGradient[0]\<close> is \<open>-1\<close>, the
  current gradient, not \<open>0\<close>. The rule stores \<open>0\<close> on reversal and then overwrites it with
  the gradient on the line that follows the branch.
\<close>

theorem irpropm_reversal_keeps_gradient:
  "sign ([- 1] ! 0 * lastGradient (fst (run [UpdateWeight [1] 0 0]
       (start 1 (1 / 10) 50 iRPROPm [0] None))) ! 0) < 0 \<and>
   lastGradient (fst (run [UpdateWeight [1] 0 0, UpdateWeight [- 1] 0 0]
       (start 1 (1 / 10) 50 iRPROPm [0] None))) = [- 1]"
  by (simp add: eval_defs)

text \<open>
  C5. Under iRPROPp, a call without dropout on a weight index whose gradient reversed its
  sign returns \<open>-lastWeightChange[index]\<close> when \<open>this.error > this.lastError\<close> and \<open>0\<close>
  otherwise; in both cases \<open>updateValues[index]\<close> becomes
  \<open>max(updateValues[index] * NEGATIVE_ETA, DELTA_MIN)\<close> and \<open>lastGradient[index]\<close> becomes \<open>0\<close>.
\<close>

theorem irpropp_reversal:
  assumes "rpropType (strategy w) = iRPROPp"
    and "weight_index index gradients w"
    and "sign (gradients ! index * lastGradient w ! index) < 0"
    and "\<not> dropoutRate > 0"
  shows "snd (updateWeight gradients index dropoutRate w) =
           Inr (if greater_than (error (strategy w)) (lastError (strategy w))
                then - (lastWeightChange (strategy w) ! index) else 0) \<and>
         updateValues (strategy (fst (updateWeight gradients index dropoutRate w))) ! index =
           max (updateValues (strategy w) ! index * NEGATIVE_ETA) DELTA_MIN \<and>
         lastGradient (fst (updateWeight gradients index dropoutRate w)) ! index = 0"
  using assms
  by (simp add: updateWeight_def updateiWeightPlus_def returned_def setter_defs tag_defs
      weight_index_def Let_def)

theorem irpropp_reversal_witness:
  "snd (updateWeight [- 1] 0 0 \<lparr>strategy = (new_ResilientPropagation 1 2 (1 / 10) 50)
          \<lparr>rpropType := iRPROPp, lastWeightChange := [1 / 10], lastError := Finite 1\<rparr>,
          lastGradient = [1], global_q = None\<rparr>) = Inr (- (1 / 10)) \<and>
   snd (updateWeight [- 1] 0 0 \<lparr>strategy = (new_ResilientPropagation 1 1 (1 / 10) 50)
          \<lparr>rpropType := iRPROPp, lastWeightChange := [1 / 10], lastError := Finite 2\<rparr>,
          lastGradient = [1], global_q = None\<rparr>) = Inr 0 \<and>
   updateValues (strategy (fst (updateWeight [- 1] 0 0
        \<lparr>strategy = (new_ResilientPropagation 1 2 (1 / 10) 50)
          \<lparr>rpropType := iRPROPp, lastWeightChange := [1 / 10], lastError := Finite 1\<rparr>,
          lastGradient = [1], global_q = None\<rparr>))) ! 0 = 1 / 20 \<and>
   lastGradient (fst (updateWeight [- 1] 0 0
        \<lparr>strategy = (new_ResilientPropagation 1 2 (1 / 10) 50)
          \<lparr>rpropType := iRPROPp, lastWeightChange := [1 / 10], lastError := Finite 1\<rparr>,
          lastGradient = [1], global_q = None\<rparr>)) ! 0 = 0"
  using
    irpropp_reversal [of "\<lparr>strategy = (new_ResilientPropagation 1 2 (1 / 10) 50)
          \<lparr>rpropType := iRPROPp, lastWeightChange := [1 / 10], lastError := Finite 1\<rparr>,
          lastGradient = [1], global_q = None\<rparr>" 0 "[- 1]" 0]
    irpropp_reversal [of "\<lparr>strategy = (new_ResilientPropagation 1 1 (1 / 10) 50)
          \<lparr>rpropType := iRPROPp, lastWeightChange := [1 / 10], lastError := Finite 2\<rparr>,
          lastGradient = [1], global_q = None\<rparr>" 0 "[- 1]" 0]
  by (simp add: new_ResilientPropagation_def newFloatArray_def sign_def consts_defs
      weight_index_def)

subsection \<open>ARPROP and the counter \<open>q\<close>\<close>

text \<open>
  C6 at concrete calls. The constructor stores the counter in the field \<open>this.q\<close>, but
  \<open>updateJacobiWeight\<close> reads and writes the bare identifier \<open>q\<close>. Where no global \<open>q\<close>
  is declared, the call throws a \<open>ReferenceError\<close> both when the error did not grow (the
  assignment \<open>q = 1\<close>) and when it grew (the read of \<open>q\<close>). Where a global \<open>q = 1\<close> exists,
  a call with a grown error moves the global to \<open>2\<close> and leaves the field \<open>this.q\<close> at \<open>1\<close>.
\<close>

theorem arprop_q_is_not_the_field:
  "snd (updateWeight [1] 0 0 (start 1 (1 / 10) 50 ARPROP [0] None))
     = Inl (ReferenceError ''q is not defined'') \<and>
   snd (updateWeight [1] 0 0 (arprop_error_grew None))
     = Inl (ReferenceError ''q is not defined'') \<and>
   q (strategy (fst (updateWeight [1] 0 0 (arprop_error_grew (Some 1))))) = 1 \<and>
   global_q (fst (updateWeight [1] 0 0 (arprop_error_grew (Some 1)))) = Some 2"
  by (simp add: eval_defs arprop_error_grew_def)

text \<open>
  C9 at concrete calls of ARPROP. The strategy's fields and \<open>lastGradient\<close> are the same in
  all three calls, and so are the arguments; the outcome follows the global \<open>q\<close>: a
  \<open>ReferenceError\<close> without it, \<open>0.05\<close> with \<open>q = 1\<close>, and \<open>0.025\<close> when the call is repeated
  from the very same fields, since the first call left the global at \<open>2\<close>.
\<close>

theorem arprop_depends_on_global_q:
  "strategy (arprop_error_grew (Some 1)) = strategy (arprop_error_grew None) \<and>
   lastGradient (arprop_error_grew (Some 1)) = lastGradient (arprop_error_grew None) \<and>
   snd (updateWeight [1] 0 0 (arprop_error_grew None))
     = Inl (ReferenceError ''q is not defined'') \<and>
   snd (updateWeight [1] 0 0 (arprop_error_grew (Some 1))) = Inr (1 / 20) \<and>
   snd (updateWeight [1] 0 0
     ((fst (updateWeight [1] 0 0 (arprop_error_grew (Some 1))))
        \<lparr>strategy := strategy (arprop_error_grew (Some 1)),
         lastGradient := lastGradient (arprop_error_grew (Some 1))\<rparr>))
     = Inr (1 / 40)"
  by (simp add: eval_defs arprop_error_grew_def)

text \<open>
  The other four rules, and the rejection of an unknown tag, never look at the global
  \<open>q\<close>: changing it changes neither the outcome nor the rest of the state.
\<close>

lemma other_variants_ignore_global_q:
  assumes "rpropType (strategy w) \<noteq> ARPROP"
  shows "updateWeight gradients index dropoutRate (w\<lparr>global_q := x\<rparr>) =
          (fst (updateWeight gradients index dropoutRate w)\<lparr>global_q := x\<rparr>,
           snd (updateWeight gradients index dropoutRate w))"
  using assms
  by (simp add: updateWeight_def updateWeightPlus_def updateWeightMinus_def
      updateiWeightPlus_def updateiWeightMinus_def returned_def setter_defs Let_def)

subsection \<open>An unrecognised variant tag\<close>

text \<open>
  C8, as stated, fails: with the unrecognised tag \<open>RPROP\<close>, a call with
  \<open>dropoutRate = 0.5\<close> raises no \<open>NeuralNetworkError\<close>.
\<close>

theorem unknown_tag_with_dropout_returns:
  "\<not> (\<exists>m. snd (updateWeight [1] 0 (1 / 2) (start 1 (1 / 10) 50 ''RPROP'' [0] None))
          = Inl (NeuralNetworkError m))"
  by (simp add: eval_defs)

text \<open>
  C8, amended. The constructor takes no tag and always stores \<open>RPROPp\<close>, so there is
  nothing for it to reject. When the field \<open>rpropType\<close> holds a tag that is none of the
  five, every call of \<open>updateWeight\<close> whose \<open>dropoutRate\<close> is not positive throws the
  \<open>NeuralNetworkError\<close> "Unknown RPROP type: " followed by the tag, and writes nothing; a
  call with \<open>dropoutRate > 0\<close> returns \<open>0\<close> before the tag is looked at.
\<close>

theorem unknown_tag_raises:
  assumes "rpropType (strategy w) \<notin> {RPROPp, RPROPm, iRPROPp, iRPROPm, ARPROP}"
  shows "rpropType (new_ResilientPropagation n err initialUpdate maxStep0) = RPROPp \<and>
         updateWeight gradients index dropoutRate w =
           (if dropoutRate > 0 then (w, Inr 0)
            else (w, Inl (NeuralNetworkError
                           (''Unknown RPROP type: '' @ rpropType (strategy w)))))"
  using assms by (simp add: updateWeight_def new_ResilientPropagation_def Let_def)

theorem unknown_tag_raises_witness:
  "updateWeight [1] 0 0 (start 1 (1 / 10) 50 ''RPROP'' [0] None) =
     (start 1 (1 / 10) 50 ''RPROP'' [0] None,
      Inl (NeuralNetworkError ''Unknown RPROP type: RPROP'')) \<and>
   updateWeight [1] 0 (1 / 2) (start 1 (1 / 10) 50 ''RPROP'' [0] None) =
     (start 1 (1 / 10) 50 ''RPROP'' [0] None, Inr 0)"
  using
    unknown_tag_raises [of "start 1 (1 / 10) 50 ''RPROP'' [0] None" 1 0 "1 / 10" 50 "[1]" 0 0]
    unknown_tag_raises [of "start 1 (1 / 10) 50 ''RPROP'' [0] None" 1 0 "1 / 10" 50 "[1]" 0 "1 / 2"]
  by (simp add: start_def tag_defs)

subsection \<open>What a call leaves alone\<close>

text \<open>
  No call changes the variant tag or \<open>maxStep\<close>; a write at a weight index stays inside
  the array, so the arrays keep their lengths.
\<close>

lemma updateWeight_frame:
  "rpropType (strategy (fst (updateWeight g i d w))) = rpropType (strategy w)"
  "maxStep (strategy (fst (updateWeight g i d w))) = maxStep (strategy w)"
  "length (updateValues (strategy (fst (updateWeight g i d w)))) = length (updateValues (strategy w))"
  "length (lastDelta (strategy (fst (updateWeight g i d w)))) = length (lastDelta (strategy w))"
  "length (lastGradient (fst (updateWeight g i d w))) = length (lastGradient w)"
  by (simp_all add: updateWeight_def rule_defs setter_defs Let_def split: option.splits sum.splits prod.splits)

lemma fire_UpdateWeight:
  "fire (UpdateWeight g i d) w = (fst (updateWeight g i d w), [snd (updateWeight g i d w)])"
  by (simp split: prod.splits)

lemma fire_frame:
  "rpropType (strategy (fst (fire e w))) = rpropType (strategy w)"
  "maxStep (strategy (fst (fire e w))) = maxStep (strategy w)"
  "length (updateValues (strategy (fst (fire e w)))) = length (updateValues (strategy w))"
  "length (lastDelta (strategy (fst (fire e w)))) = length (lastDelta (strategy w))"
  "length (lastGradient (fst (fire e w))) = length (lastGradient w)"
  by (cases e; simp add: fire_UpdateWeight updateWeight_frame postIteration_def del: fire.simps(1))+

lemma run_Cons:
  "run (e # es) w = (fst (run es (fst (fire e w))), snd (fire e w) @ snd (run es (fst (fire e w))))"
  by (simp split: prod.splits)

subsection \<open>RPROPm and \<open>initialUpdate\<close>\<close>

text \<open>
  \<open>updateWeightMinus\<close> never reads \<open>updateValues\<close>, the only place where \<open>initialUpdate\<close>
  is stored: a run under RPROPm returns the same outcomes whatever that array holds.
\<close>

lemma rpropm_updateValues_irrelevant:
  assumes "rpropType (strategy w) = RPROPm"
  shows "updateWeight g i d (w\<lparr>strategy := (strategy w)\<lparr>updateValues := uv\<rparr>\<rparr>) =
          ((fst (updateWeight g i d w))\<lparr>strategy := (strategy (fst (updateWeight g i d w)))\<lparr>updateValues := uv\<rparr>\<rparr>,
           snd (updateWeight g i d w))"
  using assms
  by (simp add: updateWeight_def updateWeightMinus_def returned_def setter_defs Let_def tag_defs)

lemma rpropm_fire_updateValues_irrelevant:
  assumes "rpropType (strategy w) = RPROPm"
  shows "fire e (w\<lparr>strategy := (strategy w)\<lparr>updateValues := uv\<rparr>\<rparr>) =
          ((fst (fire e w))\<lparr>strategy := (strategy (fst (fire e w)))\<lparr>updateValues := uv\<rparr>\<rparr>,
           snd (fire e w))"
  using assms
  by (cases e) (simp_all add: fire_UpdateWeight rpropm_updateValues_irrelevant postIteration_def del: fire.simps(1))

lemma rpropm_run_updateValues_irrelevant:
  assumes "rpropType (strategy w) = RPROPm"
  shows "run es (w\<lparr>strategy := (strategy w)\<lparr>updateValues := uv\<rparr>\<rparr>) =
          ((fst (run es w))\<lparr>strategy := (strategy (fst (run es w)))\<lparr>updateValues := uv\<rparr>\<rparr>,
           snd (run es w))"
  using assms
proof (induction es arbitrary: w)
  case Nil
  then show ?case by simp
next
  case (Cons e es)
  have tag: "rpropType (strategy (fst (fire e w))) = RPROPm"
    using Cons.prems by (simp add: fire_frame)
  show ?case
    unfolding run_Cons rpropm_fire_updateValues_irrelevant [OF Cons.prems]
    by (simp add: Cons.IH [OF tag])
qed

lemma start_updateValues:
  "start n iu2 ms t lg gq =
     (start n iu1 ms t lg gq)\<lparr>strategy := (strategy (start n iu1 ms t lg gq))
        \<lparr>updateValues := map (\<lambda>_. iu2) (newFloatArray n)\<rparr>\<rparr>"
  by (simp add: start_def new_ResilientPropagation_def)

lemma rpropm_outcomes_ignore_initialUpdate:
  "snd (run es (start n iu1 ms RPROPm lg gq)) = snd (run es (start n iu2 ms RPROPm lg gq))"
proof -
  have tag: "rpropType (strategy (start n iu1 ms RPROPm lg gq)) = RPROPm"
    by (simp add: start_def)
  have "snd (run es (start n iu2 ms RPROPm lg gq)) =
        snd (run es ((start n iu1 ms RPROPm lg gq)\<lparr>strategy := (strategy (start n iu1 ms RPROPm lg gq))
          \<lparr>updateValues := map (\<lambda>_. iu2) (newFloatArray n)\<rparr>\<rparr>))"
    using start_updateValues [of n iu2 ms RPROPm lg gq iu1] by simp
  also have "\<dots> = snd (run es (start n iu1 ms RPROPm lg gq))"
    by (simp add: rpropm_run_updateValues_irrelevant [OF tag])
  finally show ?thesis by simp
qed

lemma updateWeight_other_index:
  assumes "index \<noteq> i"
  shows "lastDelta (strategy (fst (updateWeight g index d w))) ! i = lastDelta (strategy w) ! i \<and>
         lastGradient (fst (updateWeight g index d w)) ! i = lastGradient w ! i"
  using assms
  by (simp add: updateWeight_def rule_defs setter_defs Let_def split: option.splits)

lemma rpropm_untouched_entry:
  assumes "\<not> updates_index i e"
  shows "lastDelta (strategy (fst (fire e w))) ! i = lastDelta (strategy w) ! i \<and>
         lastGradient (fst (fire e w)) ! i = lastGradient w ! i"
proof (cases e)
  case (UpdateWeight g index d)
  show ?thesis
  proof (cases "index = i")
    case True
    with UpdateWeight assms have "d > 0" by simp
    then show ?thesis
      unfolding UpdateWeight fire_UpdateWeight by (simp add: updateWeight_def)
  next
    case False
    then show ?thesis
      unfolding UpdateWeight fire_UpdateWeight by (simp add: updateWeight_other_index)
  qed
qed (simp_all add: postIteration_def)

lemma rpropm_untouched_run:
  assumes "\<forall>e \<in> set es. \<not> updates_index i e"
  shows "lastDelta (strategy (fst (run es w))) ! i = lastDelta (strategy w) ! i \<and>
         lastGradient (fst (run es w)) ! i = lastGradient w ! i \<and>
         rpropType (strategy (fst (run es w))) = rpropType (strategy w)"
  using assms
proof (induction es arbitrary: w)
  case Nil
  then show ?case by simp
next
  case (Cons e es)
  then show ?case
    unfolding run_Cons by (simp add: rpropm_untouched_entry fire_frame)
qed

lemma rpropm_from_zero:
  assumes "rpropType (strategy w) = RPROPm"
    and "lastDelta (strategy w) ! i = 0" and "lastGradient w ! i = 0" and "\<not> d > 0"
  shows "snd (updateWeight g i d w) = Inr (sign (g ! i) * DELTA_MIN)"
  using assms
  by (simp add: updateWeight_def updateWeightMinus_def returned_def setter_defs Let_def tag_defs
       sign_def DELTA_MIN_def)

text \<open>
  C10, as stated, fails for a zero gradient: on a fresh RPROPm strategy with
  \<open>lastGradient[0] = 0\<close>, the first call with \<open>gradients[0] = 0\<close> returns \<open>0\<close>, whose
  magnitude is not \<open>1e-6\<close>.
\<close>

theorem rpropm_zero_gradient_returns_zero:
  "\<not> (\<exists>c. snd (updateWeight [0] 0 0 (start 1 (1 / 10) 50 RPROPm [0] None)) = Inr c \<and>
          \<bar>c\<bar> = 1 / 10 ^ 6)"
  by (simp add: eval_defs)

text \<open>
  C10, amended. Under RPROPm the outcomes of any run do not depend on \<open>initialUpdate\<close>.
  \<open>lastDelta\<close> starts at \<open>0\<close> for every weight; so, after any events that run no update
  rule on index \<open>i\<close>, the first call without dropout for \<open>i\<close>, with \<open>lastGradient[i] = 0\<close>,
  computes \<open>delta = max(0 * NEGATIVE_ETA, DELTA_MIN) = 1e-6\<close> and returns
  \<open>sign(gradients[i]) * 1e-6\<close>: a change of magnitude exactly \<open>1e-6\<close> when the gradient is
  not zero, and \<open>0\<close> when it is.
\<close>

theorem rpropm_first_update:
  assumes "\<forall>e \<in> set es. \<not> updates_index i e"
    and "i < n" and "length lg = n" and "length g = n" and "lg ! i = 0" and "\<not> d > 0"
  shows "snd (run es' (start n iu1 ms RPROPm lg gq)) = snd (run es' (start n iu2 ms RPROPm lg gq)) \<and>
         snd (updateWeight g i d (fst (run es (start n iu1 ms RPROPm lg gq))))
           = Inr (sign (g ! i) * DELTA_MIN) \<and>
         \<bar>sign (g ! i) * DELTA_MIN\<bar> = (if g ! i = 0 then 0 else 1 / 10 ^ 6)"
proof -
  let ?init = "start n iu1 ms RPROPm lg gq"
  have z: "lastDelta (strategy ?init) ! i = 0" "lastGradient ?init ! i = 0"
    "rpropType (strategy ?init) = RPROPm"
    using assms(2,5) by (simp_all add: start_def new_ResilientPropagation_def newFloatArray_def)
  from rpropm_untouched_run [OF assms(1), of ?init] z
  have "snd (updateWeight g i d (fst (run es ?init))) = Inr (sign (g ! i) * DELTA_MIN)"
    by (intro rpropm_from_zero) (simp_all add: assms(6))
  moreover have "\<bar>sign (g ! i) * DELTA_MIN\<bar> = (if g ! i = 0 then 0 else 1 / 10 ^ 6)"
    by (simp add: sign_def DELTA_MIN_def)
  ultimately show ?thesis
    using rpropm_outcomes_ignore_initialUpdate [of es' n iu1 ms lg gq iu2] by simp
qed

theorem rpropm_first_update_witness:
  "snd (run [UpdateWeight [1, 1] 0 0, UpdateWeight [1, 1] 1 0] (start 2 (1 / 10) 50 RPROPm [0, 0] None))
     = snd (run [UpdateWeight [1, 1] 0 0, UpdateWeight [1, 1] 1 0] (start 2 7 50 RPROPm [0, 0] None)) \<and>
   snd (updateWeight [1, - 3] 1 0
          (fst (run [UpdateWeight [1, 1] 0 0, UpdateWeight [5, 5] 1 (1 / 2), PostIteration]
                 (start 2 (1 / 10) 50 RPROPm [0, 0] None))))
     = Inr (- (1 / 10 ^ 6))"
  using rpropm_first_update [of "[UpdateWeight [1, 1] 0 0, UpdateWeight [5, 5] 1 (1 / 2), PostIteration]"
      1 2 "[0, 0]" "[1, - 3]" 0 "[UpdateWeight [1, 1] 0 0, UpdateWeight [1, 1] 1 0]" "1 / 10" 50 None 7]
  by (simp add: sign_def DELTA_MIN_def)

subsection \<open>The dispatcher, tag by tag\<close>

lemma updateWeight_dropout:
  "d > 0 \<Longrightarrow> updateWeight g i d w = (w, Inr 0)"
  by (simp add: updateWeight_def)

lemma updateWeight_RPROPp:
  assumes "\<not> d > 0" and "rpropType (strategy w) = RPROPp"
  shows "updateWeight g i d w =
           (set_lastWeightChange i (snd (updateWeightPlus g i w)) (fst (updateWeightPlus g i w)),
            Inr (snd (updateWeightPlus g i w)))"
  using assms by (simp add: updateWeight_def returned_def Let_def)

lemma updateWeight_RPROPm:
  assumes "\<not> d > 0" and "rpropType (strategy w) = RPROPm"
  shows "updateWeight g i d w =
           (set_lastWeightChange i (snd (updateWeightMinus g i w)) (fst (updateWeightMinus g i w)),
            Inr (snd (updateWeightMinus g i w)))"
  using assms by (simp add: updateWeight_def returned_def Let_def tag_defs)

lemma updateWeight_iRPROPp:
  assumes "\<not> d > 0" and "rpropType (strategy w) = iRPROPp"
  shows "updateWeight g i d w =
           (set_lastWeightChange i (snd (updateiWeightPlus g i w)) (fst (updateiWeightPlus g i w)),
            Inr (snd (updateiWeightPlus g i w)))"
  using assms by (simp add: updateWeight_def returned_def Let_def tag_defs)

lemma updateWeight_iRPROPm:
  assumes "\<not> d > 0" and "rpropType (strategy w) = iRPROPm"
  shows "updateWeight g i d w =
           (set_lastWeightChange i (snd (updateiWeightMinus g i w)) (fst (updateiWeightMinus g i w)),
            Inr (snd (updateiWeightMinus g i w)))"
  using assms by (simp add: updateWeight_def returned_def Let_def tag_defs)



subsection \<open>Clamping of the step sizes\<close>












text \<open>
  \<open>lastDelta\<close> is the step size of RPROPm and iRPROPm. It starts at \<open>0\<close>, below
  \<open>DELTA_MIN\<close>; an update lifts an entry into the bounds when it takes the shrinking
  branch, which it does as long as \<open>lastGradient\<close> holds \<open>0\<close> there.
\<close>

lemma minus_lastDelta:
  assumes "rpropType (strategy w) = RPROPm \<or> rpropType (strategy w) = iRPROPm"
    and "\<not> d > 0" and "i < length (lastDelta (strategy w))"
  shows "lastDelta (strategy (fst (updateWeight g i d w))) ! i =
           (if sign (g ! i * lastGradient w ! i) > 0
            then min (lastDelta (strategy w) ! i * POSITIVE_ETA) (maxStep (strategy w))
            else max (lastDelta (strategy w) ! i * NEGATIVE_ETA) DELTA_MIN)"
  using assms(1)
proof
  assume "rpropType (strategy w) = RPROPm"
  then show ?thesis
    using assms(3)
    by (simp add: updateWeight_RPROPm [OF assms(2)] updateWeightMinus_def setter_defs Let_def)
next
  assume "rpropType (strategy w) = iRPROPm"
  then show ?thesis
    using assms(3)
    by (simp add: updateWeight_iRPROPm [OF assms(2)] updateiWeightMinus_def setter_defs Let_def)
qed

lemma minus_entry:
  assumes "rpropType (strategy w) = RPROPm \<or> rpropType (strategy w) = iRPROPm"
    and "\<not> d > 0" and "i < length (lastDelta (strategy w))"
    and "DELTA_MIN \<le> maxStep (strategy w)"
    and "(lastDelta (strategy w) ! i = 0 \<and> lastGradient w ! i = 0) \<or>
         (DELTA_MIN \<le> lastDelta (strategy w) ! i \<and>
          lastDelta (strategy w) ! i \<le> maxStep (strategy w))"
  shows "DELTA_MIN \<le> lastDelta (strategy (fst (updateWeight g i d w))) ! i \<and>
         lastDelta (strategy (fst (updateWeight g i d w))) ! i \<le> maxStep (strategy w)"
  using assms(4,5)
  unfolding minus_lastDelta [OF assms(1,2,3)]
  by (auto simp: sign_def consts_defs)

lemma fire_settled:
  assumes "lastDelta_settled n w" and "in_range n e"
    and "rpropType (strategy w) = RPROPm \<or> rpropType (strategy w) = iRPROPm"
    and "length (lastDelta (strategy w)) = n" and "DELTA_MIN \<le> maxStep (strategy w)"
  shows "lastDelta_settled n (fst (fire e w))"
proof (cases e)
  case (UpdateWeight g i d)
  show ?thesis
  proof (cases "d > 0")
    case True
    then show ?thesis
      using assms(1) unfolding UpdateWeight fire_UpdateWeight by (simp add: updateWeight_dropout)
  next
    case False
    have i: "i < length (lastDelta (strategy w))"
      using assms(2,4) UpdateWeight by simp
    have "(lastDelta (strategy (fst (updateWeight g i d w))) ! j = 0 \<and>
           lastGradient (fst (updateWeight g i d w)) ! j = 0) \<or>
          (DELTA_MIN \<le> lastDelta (strategy (fst (updateWeight g i d w))) ! j \<and>
           lastDelta (strategy (fst (updateWeight g i d w))) ! j \<le> maxStep (strategy w))"
      if "j < n" for j
    proof (cases "j = i")
      case True
      have "(lastDelta (strategy w) ! i = 0 \<and> lastGradient w ! i = 0) \<or>
            (DELTA_MIN \<le> lastDelta (strategy w) ! i \<and>
             lastDelta (strategy w) ! i \<le> maxStep (strategy w))"
        using assms(1) that True by (simp add: lastDelta_settled_def)
      from minus_entry [OF assms(3) False i assms(5) this, of g]
      show ?thesis by (simp add: True)
    next
      case False
      then have "i \<noteq> j" by simp
      from updateWeight_other_index [OF this, of g d w] assms(1) that
      show ?thesis by (simp add: lastDelta_settled_def)
    qed
    then show ?thesis
      unfolding UpdateWeight fire_UpdateWeight
      by (simp add: lastDelta_settled_def updateWeight_frame)
  qed
qed (use assms(1) in \<open>simp_all add: postIteration_def lastDelta_settled_def\<close>)

lemma run_settled:
  assumes "lastDelta_settled n w" and "\<forall>e \<in> set es. in_range n e"
    and "rpropType (strategy w) = RPROPm \<or> rpropType (strategy w) = iRPROPm"
    and "length (lastDelta (strategy w)) = n" and "DELTA_MIN \<le> maxStep (strategy w)"
  shows "lastDelta_settled n (fst (run es w))"
  using assms
proof (induction es arbitrary: w)
  case Nil
  then show ?case by simp
next
  case (Cons e es)
  have "lastDelta_settled n (fst (fire e w))"
    using Cons.prems by (simp add: fire_settled)
  then have "lastDelta_settled n (fst (run es (fst (fire e w))))"
    using Cons.prems by (intro Cons.IH) (simp_all add: fire_frame)
  then show ?case
    unfolding run_Cons by simp
qed








subsection \<open>The sign rule\<close>

lemma sign_scaled:
  assumes "0 < d"
  shows "sign (sign x * d) = sign x"
  using assms by (simp add: sign_def)

lemma sign_grown:
  assumes "0 < u" and "0 < ms"
  shows "sign (sign x * min (u * POSITIVE_ETA) ms) = sign x"
  using assms by (intro sign_scaled) (simp add: POSITIVE_ETA_def)

lemma sign_shrunk:
  "sign (sign x * max (u * NEGATIVE_ETA) DELTA_MIN) = sign x"
  by (intro sign_scaled) (simp add: DELTA_MIN_def less_max_iff_disj)

lemma plus_sign_rule:
  assumes "rpropType (strategy w) = RPROPp \<or> rpropType (strategy w) = iRPROPp"
    and "0 < updateValues (strategy w) ! i" and "0 < maxStep (strategy w)"
  shows "(0 \<le> sign (g ! i * lastGradient w ! i) \<longrightarrow>
           (\<exists>c. snd (updateWeight g i 0 w) = Inr c \<and> sign c = sign (g ! i))) \<and>
         (sign (g ! i * lastGradient w ! i) < 0 \<longrightarrow>
            snd (updateWeight g i 0 w) = Inr 0 \<or>
            snd (updateWeight g i 0 w) = Inr (- (lastWeightChange (strategy w) ! i)))"
  using assms(1)
proof
  assume "rpropType (strategy w) = RPROPp"
  then show ?thesis
    using assms(2,3)
    by (simp add: updateWeight_RPROPp updateWeightPlus_def Let_def sign_scaled
          sign_grown)
next
  assume "rpropType (strategy w) = iRPROPp"
  then show ?thesis
    using assms(2,3)
    by (simp add: updateWeight_iRPROPp updateiWeightPlus_def Let_def sign_scaled
          sign_grown set_updateValues_def)
qed

lemma minus_sign_rule:
  assumes "rpropType (strategy w) = RPROPm \<or> rpropType (strategy w) = iRPROPm"
    and "0 < sign (g ! i * lastGradient w ! i) \<longrightarrow> 0 < lastDelta (strategy w) ! i"
    and "0 < maxStep (strategy w)"
  shows "(\<exists>c. snd (updateWeight g i 0 w) = Inr c \<and> sign c = sign (g ! i)) \<and>
         (sign (g ! i * lastGradient w ! i) < 0 \<longrightarrow>
            snd (updateWeight g i 0 w) =
              Inr (sign (g ! i) * max (lastDelta (strategy w) ! i * NEGATIVE_ETA) DELTA_MIN))"
  using assms(1)
proof
  assume "rpropType (strategy w) = RPROPm"
  then show ?thesis
    using assms(2,3)
    by (simp add: updateWeight_RPROPm updateWeightMinus_def Let_def sign_scaled
          sign_grown sign_shrunk)
next
  assume "rpropType (strategy w) = iRPROPm"
  then show ?thesis
    using assms(2,3)
    by (simp add: updateWeight_iRPROPm updateiWeightMinus_def Let_def sign_scaled
          sign_grown sign_shrunk)
qed

text \<open>
  C1, as stated, fails for RPROPm. From the defaults and \<open>lastGradient = [0]\<close>, two calls
  with gradient \<open>1\<close> record the weight change \<open>1.2e-6\<close>; the next call, with gradient
  \<open>-1\<close>, is a sign reversal and returns \<open>-1e-6\<close>, which is neither \<open>0\<close> nor the negation
  of the recorded change.
\<close>

theorem rpropm_reversal_is_no_undo:
  "sign ([- 1] ! 0 * lastGradient (fst (run [UpdateWeight [1] 0 0, UpdateWeight [1] 0 0]
      (start 1 (1 / 10) 50 RPROPm [0] None))) ! 0) < 0 \<and>
   snd (updateWeight [- 1] 0 0 (fst (run [UpdateWeight [1] 0 0, UpdateWeight [1] 0 0]
      (start 1 (1 / 10) 50 RPROPm [0] None)))) \<noteq> Inr 0 \<and>
   snd (updateWeight [- 1] 0 0 (fst (run [UpdateWeight [1] 0 0, UpdateWeight [1] 0 0]
      (start 1 (1 / 10) 50 RPROPm [0] None)))) \<noteq>
     Inr (- (lastWeightChange (strategy (fst (run [UpdateWeight [1] 0 0, UpdateWeight [1] 0 0]
      (start 1 (1 / 10) 50 RPROPm [0] None)))) ! 0))"
  by (simp add: eval_defs)

text \<open>
  C1, amended. Let the index be a weight index, \<open>dropoutRate = 0\<close> and \<open>maxStep > 0\<close>.
  For RPROPp and iRPROPp with a positive step \<open>updateValues[i]\<close>: when
  \<open>change = sign(gradients[i] * lastGradient[i]) \<ge> 0\<close> the returned change has the sign
  of \<open>gradients[i]\<close>, and when \<open>change < 0\<close> it is \<open>0\<close> or the negation of the recorded
  weight change. For RPROPm and iRPROPm (with a positive \<open>lastDelta[i]\<close> in case
  \<open>change > 0\<close>) the returned change has the sign of \<open>gradients[i]\<close> whatever \<open>change\<close>
  is, and when \<open>change < 0\<close> it equals
  \<open>sign(gradients[i]) * max(lastDelta[i] * NEGATIVE_ETA, DELTA_MIN)\<close>. ARPROP is left out.
\<close>

theorem sign_rule:
  assumes "weight_index index gradients w" and "0 < maxStep (strategy w)"
  shows
    "((rpropType (strategy w) = RPROPp \<or> rpropType (strategy w) = iRPROPp) \<and>
      0 < updateValues (strategy w) ! index \<longrightarrow>
        (0 \<le> sign (gradients ! index * lastGradient w ! index) \<longrightarrow>
           (\<exists>c. snd (updateWeight gradients index 0 w) = Inr c \<and>
                sign c = sign (gradients ! index))) \<and>
        (sign (gradients ! index * lastGradient w ! index) < 0 \<longrightarrow>
           snd (updateWeight gradients index 0 w) = Inr 0 \<or>
           snd (updateWeight gradients index 0 w)
             = Inr (- (lastWeightChange (strategy w) ! index)))) \<and>
     ((rpropType (strategy w) = RPROPm \<or> rpropType (strategy w) = iRPROPm) \<and>
      (0 < sign (gradients ! index * lastGradient w ! index) \<longrightarrow>
         0 < lastDelta (strategy w) ! index) \<longrightarrow>
        (\<exists>c. snd (updateWeight gradients index 0 w) = Inr c \<and>
             sign c = sign (gradients ! index)) \<and>
        (sign (gradients ! index * lastGradient w ! index) < 0 \<longrightarrow>
           snd (updateWeight gradients index 0 w) =
             Inr (sign (gradients ! index) *
                  max (lastDelta (strategy w) ! index * NEGATIVE_ETA) DELTA_MIN)))"
  using plus_sign_rule [of w index gradients] minus_sign_rule [of w gradients index] assms(2)
  by blast

theorem sign_rule_witness:
  "0 \<le> sign ([1] ! 0 * lastGradient (start 1 (1 / 10) 50 RPROPp [0] None) ! 0) \<and>
   (\<exists>c. snd (updateWeight [1] 0 0 (start 1 (1 / 10) 50 RPROPp [0] None)) = Inr c \<and>
        sign c = sign ([1] ! 0)) \<and>
   sign ([- 1] ! 0 * lastGradient (fst (run [UpdateWeight [1] 0 0]
      (start 1 (1 / 10) 50 RPROPp [0] None))) ! 0) < 0 \<and>
   snd (updateWeight [- 1] 0 0 (fst (run [UpdateWeight [1] 0 0]
      (start 1 (1 / 10) 50 RPROPp [0] None)))) = Inr (- (1 / 10)) \<and>
   sign ([- 1] ! 0 * lastGradient (fst (run [UpdateWeight [1] 0 0]
      (start 1 (1 / 10) 50 RPROPm [0] None))) ! 0) < 0 \<and>
   snd (updateWeight [- 1] 0 0 (fst (run [UpdateWeight [1] 0 0]
      (start 1 (1 / 10) 50 RPROPm [0] None)))) = Inr (- (1 / 10 ^ 6))"
  using
    sign_rule [of 0 "[1]" "start 1 (1 / 10) 50 RPROPp [0] None"]
    sign_rule [of 0 "[- 1]" "fst (run [UpdateWeight [1] 0 0] (start 1 (1 / 10) 50 RPROPp [0] None))"]
    sign_rule [of 0 "[- 1]" "fst (run [UpdateWeight [1] 0 0] (start 1 (1 / 10) 50 RPROPm [0] None))"]
  by (simp add: eval_defs weight_index_def)

end
